theory Spec2Isabelle
  imports Complex_Main
begin

section \<open>Numeric library functions used by the pricers\<close>

text \<open>
  The scripts compute with IEEE doubles through NumPy and SciPy.  The embedding is over the
  real and complex numbers: \<open>np.log\<close>, \<open>np.sqrt\<close> and \<open>np.exp\<close> are \<open>ln\<close>, \<open>sqrt\<close>
  (\<open>csqrt\<close> on complex arguments) and \<open>exp\<close>; rounding, overflow and NaN are outside the model.
\<close>

text \<open>
  \<open>scipy.stats.norm.cdf\<close>: the distribution function of the standard normal law, given by
  its Maclaurin series
  \<open>\<Phi>(x) = 1/2 + (1/\<surd>(2\<pi>)) \<Sum>n. (-1)^n x^(2n+1) / (2^n n! (2n+1))\<close>,
  the term-by-term integral of the density \<open>exp (- t\<^sup>2 / 2) / \<surd>(2\<pi>)\<close> from 0 to x.
  Below, \<open>norm_cdf_0\<close> and \<open>norm_cdf_deriv\<close> show that it is 1/2 at 0 and that its
  derivative is that density.
\<close>

definition cdf_term :: "real \<Rightarrow> nat \<Rightarrow> real" where
  "cdf_term x n = x ^ (2 * n + 1) / (2 ^ n * fact n * real (2 * n + 1))"

definition cdf_series :: "real \<Rightarrow> real" where
  "cdf_series x = (\<Sum>n. (- 1) ^ n * cdf_term x n)"

definition norm_cdf :: "real \<Rightarrow> real" where
  "norm_cdf x = 1 / 2 + cdf_series x / sqrt (2 * pi)"

text \<open>The same series as a power series in \<open>x\<close>: the coefficient of \<open>x ^ Suc n\<close>.\<close>

definition cdf_coeff :: "nat \<Rightarrow> real" where
  "cdf_coeff n =
     (if even n then (- 1) ^ (n div 2) / (2 ^ (n div 2) * fact (n div 2) * real (Suc n)) else 0)"

text \<open>The principal complex logarithm, \<open>np.log\<close> on a complex argument.\<close>

definition clog :: "complex \<Rightarrow> complex" where
  "clog z = Complex (ln (cmod z)) (Arg z)"

text \<open>
  Exceptions of the Python interpreter that the modelled code can meet: a float division
  by zero, and arithmetic on \<open>None\<close>.
\<close>

datatype py_exception = ZeroDivisionError | TypeError

definition py_div :: "real \<Rightarrow> real \<Rightarrow> py_exception + real" where
  "py_div a b = (if b = 0 then Inl ZeroDivisionError else Inr (a / b))"

text \<open>\<open>try: ... except Exception: return None\<close> around a body that returns a price or None.\<close>

definition except_return_None :: "py_exception + 'a option \<Rightarrow> py_exception + 'a option" where
  "except_return_None body = (case body of Inl e \<Rightarrow> Inr None | Inr v \<Rightarrow> Inr v)"

section \<open>black\_scholes.py\<close>

text \<open>The statements inside the \<open>try\<close> block of \<open>black_scholes\<close>, in the source's order.\<close>

definition black_scholes_body ::
  "real \<Rightarrow> real \<Rightarrow> real \<Rightarrow> real \<Rightarrow> real \<Rightarrow> string \<Rightarrow> py_exception + real option" where
  "black_scholes_body S K T r sigma option_type =
     (if S \<le> 0 \<or> K \<le> 0 \<or> T \<le> 0 \<or> sigma \<le> 0 then Inr None
      else case py_div S K of
        Inl e \<Rightarrow> Inl e
      | Inr q \<Rightarrow>
          (let log_term = ln q;
               sigma_sqrt_T = sigma * sqrt T
           in if sigma_sqrt_T \<le> 0 then Inr None
              else case py_div (log_term + (r + 0.5 * sigma\<^sup>2) * T) sigma_sqrt_T of
                Inl e \<Rightarrow> Inl e
              | Inr d1 \<Rightarrow>
                  (let d2 = d1 - sigma_sqrt_T
                   in if option_type = ''put'' \<and> norm_cdf (- d2) < 0.01 then Inr (Some 0)
                      else if option_type = ''call''
                        then Inr (Some (S * norm_cdf d1 - K * exp (- r * T) * norm_cdf d2))
                      else if option_type = ''put''
                        then Inr (Some (K * exp (- r * T) * norm_cdf (- d2) - S * norm_cdf (- d1)))
                      else Inr None)))"

definition black_scholes ::
  "real \<Rightarrow> real \<Rightarrow> real \<Rightarrow> real \<Rightarrow> real \<Rightarrow> string \<Rightarrow> py_exception + real option" where
  "black_scholes S K T r sigma option_type =
     except_return_None (black_scholes_body S K T r sigma option_type)"

section \<open>heston\_model.py\<close>

subsection \<open>Characteristic function, integrand and price\<close>

definition heston_cf ::
  "real \<Rightarrow> real \<Rightarrow> real \<Rightarrow> real \<Rightarrow> real \<Rightarrow> real \<Rightarrow> real \<Rightarrow> real \<Rightarrow> real \<Rightarrow> int \<Rightarrow> complex" where
  "heston_cf phi S T r kappa theta sigma rho v0 j =
     (let i = \<i>;
          u = (if j = 1 then 0.5 else - 0.5 :: real);
          b = (if j = 1 then kappa - rho * sigma else kappa);
          d = csqrt ((rho * sigma * i * phi - b)\<^sup>2 - sigma\<^sup>2 * (2 * u * i * phi - phi\<^sup>2));
          g = (b - rho * sigma * i * phi + d) / (b - rho * sigma * i * phi - d);
          C = r * i * phi * T + (kappa * theta / sigma\<^sup>2) *
                ((b - rho * sigma * i * phi + d) * T
                 - 2 * clog ((1 - g * exp (d * T)) / (1 - g)));
          D = ((b - rho * sigma * i * phi + d) / sigma\<^sup>2) *
                ((1 - exp (d * T)) / (1 - g * exp (d * T)))
      in exp (C + D * v0 + i * phi * ln S))"

definition integrand ::
  "real \<Rightarrow> real \<Rightarrow> real \<Rightarrow> real \<Rightarrow> real \<Rightarrow> real \<Rightarrow> real \<Rightarrow> real \<Rightarrow> real \<Rightarrow> real \<Rightarrow> int \<Rightarrow> real" where
  "integrand phi S K T r kappa theta sigma rho v0 j =
     (let i = \<i>
      in if phi \<noteq> 0
         then Re (exp (- i * phi * ln K) * heston_cf phi S T r kappa theta sigma rho v0 j / (i * phi))
         else 0.0)"

text \<open>
  \<open>scipy.integrate.quad(f, a, b, ...)[0]\<close>, the numerical value of the integral of \<open>f\<close> from
  \<open>a\<close> to \<open>b\<close>, is a parameter of the model.
\<close>

type_synonym quadrature = "(real \<Rightarrow> real) \<Rightarrow> real \<Rightarrow> real \<Rightarrow> real"

definition heston_price ::
  "quadrature \<Rightarrow> real \<Rightarrow> real \<Rightarrow> real \<Rightarrow> real \<Rightarrow> real \<Rightarrow> real \<Rightarrow> real \<Rightarrow> real \<Rightarrow> real \<Rightarrow> string
     \<Rightarrow> real option" where
  "heston_price quad S K T r kappa theta sigma rho v0 option_type =
     (let phi_max = 85;
          P1 = 0.5 + (1 / pi) *
                 quad (\<lambda>phi. integrand phi S K T r kappa theta sigma rho v0 1) 0 phi_max;
          P2 = 0.5 + (1 / pi) *
                 quad (\<lambda>phi. integrand phi S K T r kappa theta sigma rho v0 2) 0 phi_max
      in if option_type = ''call'' then Some (max (S * P1 - K * exp (- r * T) * P2) 0)
         else if option_type = ''put'' then Some (max (K * exp (- r * T) * (1 - P2) - S * (1 - P1)) 0)
         else None)"

subsection \<open>Rows of the data frame\<close>

record quote_row =
  spot_price :: real
  strike_price :: real
  row_T :: real
  row_option_type :: string
  real_market_price :: real
  implied_volatility :: real

text \<open>
  \<open>str.lower()\<close> and \<open>str.strip()\<close> on strings of code points below 256, a \<open>char\<close> being
  its code point.  The upper-case letters are A to Z and U+00C0 to U+00DE without the
  multiplication sign U+00D7, each 32 below its lower-case letter.  The white space that
  \<open>strip\<close> removes is U+0009 to U+000D, U+001C to U+0020, U+0085 and U+00A0.
\<close>

definition py_lower_char :: "char \<Rightarrow> char" where
  "py_lower_char c =
     (let n = (of_char c :: nat)
      in if (65 \<le> n \<and> n \<le> 90) \<or> (192 \<le> n \<and> n \<le> 222 \<and> n \<noteq> 215) then char_of (n + 32)
         else c)"

definition py_lower :: "string \<Rightarrow> string" where
  "py_lower s = map py_lower_char s"

definition py_isspace :: "char \<Rightarrow> bool" where
  "py_isspace c =
     (let n = (of_char c :: nat)
      in (9 \<le> n \<and> n \<le> 13) \<or> (28 \<le> n \<and> n \<le> 32) \<or> n = 133 \<or> n = 160)"

definition py_strip :: "string \<Rightarrow> string" where
  "py_strip s = rev (dropWhile py_isspace (rev (dropWhile py_isspace s)))"

subsection \<open>Calibration objective\<close>

text \<open>
  The \<open>for\<close> loop over \<open>data.iterrows()\<close> with its accumulator \<open>error\<close>.  The model price is
  \<open>None\<close> for an option type that is neither call nor put; subtracting the market price from
  it raises \<open>TypeError\<close>.
\<close>

fun calibration_loop ::
  "quadrature \<Rightarrow> real \<times> real \<times> real \<times> real \<Rightarrow> real \<Rightarrow> quote_row list \<Rightarrow> real
     \<Rightarrow> py_exception + real" where
  "calibration_loop quad params r_fixed [] error = Inr error"
| "calibration_loop quad params r_fixed (row # rows) error =
     (case params of (kappa, theta, rho, v0) \<Rightarrow>
        (let S = spot_price row; K = strike_price row; T = row_T row;
             option_type = py_strip (py_lower (row_option_type row));
             market_price = real_market_price row;
             sigma = implied_volatility row;
             model_price = heston_price quad S K T r_fixed kappa theta sigma rho v0 option_type
         in if market_price > 0
            then (case model_price of
                    None \<Rightarrow> Inl TypeError
                  | Some p \<Rightarrow>
                      calibration_loop quad params r_fixed rows
                        (error + ((p - market_price) / market_price)\<^sup>2))
            else calibration_loop quad params r_fixed rows error))"

definition calibration_objective ::
  "quadrature \<Rightarrow> real \<times> real \<times> real \<times> real \<Rightarrow> quote_row list \<Rightarrow> real \<Rightarrow> py_exception + real" where
  "calibration_objective quad params data r_fixed = calibration_loop quad params r_fixed data 0.0"

subsection \<open>Pricing pass and post-processing\<close>

text \<open>
  A row of the frame together with its \<open>heston_price\<close> column; \<open>None\<close> stands for both
  \<open>None\<close> and NaN (pandas stores a missing float as NaN).
\<close>

type_synonym priced_row = "quote_row \<times> real option"

definition pricing_pass ::
  "quadrature \<Rightarrow> real \<Rightarrow> real \<Rightarrow> real \<Rightarrow> real \<Rightarrow> real \<Rightarrow> quote_row list \<Rightarrow> priced_row list" where
  "pricing_pass quad r_fixed kappa theta rho v0 df =
     map (\<lambda>row. (row,
            if real_market_price row > 0
            then heston_price quad (spot_price row) (strike_price row) (row_T row) r_fixed
                   kappa theta (implied_volatility row) rho v0 (row_option_type row)
            else None)) df"

text \<open>\<open>np.where(strike > spot * 1.5, heston_price * 0.95, heston_price)\<close>.\<close>

definition deep_otm_correction :: "priced_row list \<Rightarrow> priced_row list" where
  "deep_otm_correction df =
     map (\<lambda>(row, hp).
            (row, if strike_price row > spot_price row * 1.5
                  then map_option (\<lambda>p. p * 0.95) hp else hp)) df"

text \<open>\<open>abs(heston_price - real_market_price)\<close>; NaN when the price is missing.\<close>

definition error_heston :: "priced_row \<Rightarrow> real option" where
  "error_heston pr = (case pr of (row, hp) \<Rightarrow> map_option (\<lambda>p. \<bar>p - real_market_price row\<bar>) hp)"

text \<open>
  \<open>Series.quantile(q)\<close> of pandas with its default linear interpolation: missing values are
  skipped, the rest sorted, and the value at position \<open>q * (n - 1)\<close> is interpolated between
  its two neighbours.  The quantile of no values is NaN.
\<close>

definition quantile :: "real \<Rightarrow> real option list \<Rightarrow> real option" where
  "quantile q col =
     (let vs = sort (map the (filter (\<lambda>v. v \<noteq> None) col));
          n = length vs
      in if n = 0 then None
         else (let h = q * real (n - 1);
                   lo = nat \<lfloor>h\<rfloor>;
                   hi = nat \<lceil>h\<rceil>
               in Some (vs ! lo + (vs ! hi - vs ! lo) * (h - real lo))))"

text \<open>
  \<open>df[df["error_heston"] < df["error_heston"].quantile(0.975)]\<close>: a comparison with NaN on
  either side is False.
\<close>

definition below :: "real option \<Rightarrow> real option \<Rightarrow> bool" where
  "below e q = (case e of None \<Rightarrow> False | Some x \<Rightarrow> (case q of None \<Rightarrow> False | Some y \<Rightarrow> x < y))"

definition remove_outliers :: "priced_row list \<Rightarrow> priced_row list" where
  "remove_outliers df =
     (let threshold = quantile 0.975 (map error_heston df)
      in filter (\<lambda>pr. below (error_heston pr) threshold) df)"

text \<open>\<open>df.dropna(subset=["heston_price"])\<close>.\<close>

definition dropna :: "priced_row list \<Rightarrow> priced_row list" where
  "dropna df = filter (\<lambda>pr. snd pr \<noteq> None) df"

definition heston_pipeline ::
  "quadrature \<Rightarrow> real \<Rightarrow> real \<Rightarrow> real \<Rightarrow> real \<Rightarrow> real \<Rightarrow> quote_row list \<Rightarrow> priced_row list" where
  "heston_pipeline quad r_fixed kappa theta rho v0 df =
     dropna (remove_outliers (deep_otm_correction (pricing_pass quad r_fixed kappa theta rho v0 df)))"

section \<open>Formulas of the specification\<close>

text \<open>
  The closed forms that the specification states, written from its wording and kept apart
  from the definitions above, which follow the source.
\<close>

definition bs_d1 :: "real \<Rightarrow> real \<Rightarrow> real \<Rightarrow> real \<Rightarrow> real \<Rightarrow> real" where
  "bs_d1 S K T r sigma = (ln (S / K) + (r + sigma\<^sup>2 / 2) * T) / (sigma * sqrt T)"

definition bs_d2 :: "real \<Rightarrow> real \<Rightarrow> real \<Rightarrow> real \<Rightarrow> real \<Rightarrow> real" where
  "bs_d2 S K T r sigma = bs_d1 S K T r sigma - sigma * sqrt T"

definition bs_call :: "real \<Rightarrow> real \<Rightarrow> real \<Rightarrow> real \<Rightarrow> real \<Rightarrow> real" where
  "bs_call S K T r sigma =
     S * norm_cdf (bs_d1 S K T r sigma) - K * exp (- (r * T)) * norm_cdf (bs_d2 S K T r sigma)"

definition bs_put :: "real \<Rightarrow> real \<Rightarrow> real \<Rightarrow> real \<Rightarrow> real \<Rightarrow> real" where
  "bs_put S K T r sigma =
     K * exp (- (r * T)) * norm_cdf (- bs_d2 S K T r sigma) - S * norm_cdf (- bs_d1 S K T r sigma)"

text \<open>Section 4.2: \<open>d\<close>, \<open>g\<close>, \<open>C\<close>, \<open>D\<close> and the result, for a branch with drift \<open>b\<close> and weight \<open>w\<close>.\<close>

definition spec_d :: "real \<Rightarrow> real \<Rightarrow> real \<Rightarrow> real \<Rightarrow> real \<Rightarrow> complex" where
  "spec_d u b w rho sigma =
     csqrt ((rho * sigma * \<i> * u - b)\<^sup>2 - sigma\<^sup>2 * (2 * w * \<i> * u - u\<^sup>2))"

definition spec_g :: "real \<Rightarrow> real \<Rightarrow> real \<Rightarrow> real \<Rightarrow> real \<Rightarrow> complex" where
  "spec_g u b w rho sigma =
     (b - rho * sigma * \<i> * u + spec_d u b w rho sigma)
       / (b - rho * sigma * \<i> * u - spec_d u b w rho sigma)"

definition spec_C ::
  "real \<Rightarrow> real \<Rightarrow> real \<Rightarrow> real \<Rightarrow> real \<Rightarrow> real \<Rightarrow> real \<Rightarrow> real \<Rightarrow> real \<Rightarrow> complex" where
  "spec_C u b w T r kappa theta sigma rho =
     r * \<i> * u * T + (kappa * theta / sigma\<^sup>2) *
       ((b - rho * sigma * \<i> * u + spec_d u b w rho sigma) * T
        - 2 * clog ((1 - spec_g u b w rho sigma * exp (spec_d u b w rho sigma * T))
                     / (1 - spec_g u b w rho sigma)))"

definition spec_D :: "real \<Rightarrow> real \<Rightarrow> real \<Rightarrow> real \<Rightarrow> real \<Rightarrow> real \<Rightarrow> complex" where
  "spec_D u b w T sigma rho =
     ((b - rho * sigma * \<i> * u + spec_d u b w rho sigma) / sigma\<^sup>2) *
       (1 - exp (spec_d u b w rho sigma * T))
       / (1 - spec_g u b w rho sigma * exp (spec_d u b w rho sigma * T))"

definition spec_phi ::
  "real \<Rightarrow> real \<Rightarrow> real \<Rightarrow> real \<Rightarrow> real \<Rightarrow> real \<Rightarrow> real \<Rightarrow> real \<Rightarrow> real \<Rightarrow> real \<Rightarrow> real \<Rightarrow> complex" where
  "spec_phi u b w S T r kappa theta sigma rho v0 =
     exp (spec_C u b w T r kappa theta sigma rho + spec_D u b w T sigma rho * v0 + \<i> * u * ln S)"

text \<open>
  Section 4.3: the integrand for the branch with drift \<open>b\<close> and weight \<open>w\<close>, 0 at \<open>u = 0\<close>,
  over the characteristic function of section 4.2, and the probability with bound 85.
  \<open>P\<^sub>1\<close> is the probability of the branch \<open>b = \<kappa> - \<rho>\<sigma>\<close>, \<open>w = 0.5\<close> and \<open>P\<^sub>2\<close> that of the
  branch \<open>b = \<kappa>\<close>, \<open>w = - 0.5\<close>.
\<close>

definition spec_integrand ::
  "real \<Rightarrow> real \<Rightarrow> real \<Rightarrow> real \<Rightarrow> real \<Rightarrow> real \<Rightarrow> real \<Rightarrow> real \<Rightarrow> real \<Rightarrow> real \<Rightarrow> real \<Rightarrow> real
     \<Rightarrow> real" where
  "spec_integrand u b w S K T r kappa theta sigma rho v0 =
     (if u = 0 then 0
      else Re (exp (- (\<i> * u * ln K)) * spec_phi u b w S T r kappa theta sigma rho v0 / (\<i> * u)))"

definition spec_P ::
  "quadrature \<Rightarrow> real \<Rightarrow> real \<Rightarrow> real \<Rightarrow> real \<Rightarrow> real \<Rightarrow> real \<Rightarrow> real \<Rightarrow> real \<Rightarrow> real \<Rightarrow> real \<Rightarrow> real
     \<Rightarrow> real" where
  "spec_P quad b w S K T r kappa theta sigma rho v0 =
     0.5 + (1 / pi) * quad (\<lambda>u. spec_integrand u b w S K T r kappa theta sigma rho v0) 0 85"

definition spec_P1 ::
  "quadrature \<Rightarrow> real \<Rightarrow> real \<Rightarrow> real \<Rightarrow> real \<Rightarrow> real \<Rightarrow> real \<Rightarrow> real \<Rightarrow> real \<Rightarrow> real \<Rightarrow> real" where
  "spec_P1 quad S K T r kappa theta sigma rho v0 =
     spec_P quad (kappa - rho * sigma) 0.5 S K T r kappa theta sigma rho v0"

definition spec_P2 ::
  "quadrature \<Rightarrow> real \<Rightarrow> real \<Rightarrow> real \<Rightarrow> real \<Rightarrow> real \<Rightarrow> real \<Rightarrow> real \<Rightarrow> real \<Rightarrow> real \<Rightarrow> real" where
  "spec_P2 quad S K T r kappa theta sigma rho v0 =
     spec_P quad kappa (- 0.5) S K T r kappa theta sigma rho v0"

text \<open>Section 4.4: the relative squared error of one quote.\<close>

definition relative_sq_error ::
  "quadrature \<Rightarrow> real \<times> real \<times> real \<times> real \<Rightarrow> real \<Rightarrow> quote_row \<Rightarrow> real" where
  "relative_sq_error quad params r_fixed row =
     (case params of (kappa, theta, rho, v0) \<Rightarrow>
        ((the (heston_price quad (spot_price row) (strike_price row) (row_T row) r_fixed
                 kappa theta (implied_volatility row) rho v0
                 (py_strip (py_lower (row_option_type row))))
          - real_market_price row) / real_market_price row)\<^sup>2)"

section \<open>The standard normal distribution function\<close>

subsection \<open>Convergence and symmetry of the series\<close>

lemma cdf_term_nonneg: "0 \<le> x \<Longrightarrow> 0 \<le> cdf_term x n"
  by (simp add: cdf_term_def)

lemma cdf_term_minus: "cdf_term (- x) n = - cdf_term x n"
  by (simp add: cdf_term_def)

lemma cdf_term_Suc:
  "cdf_term x (Suc n) = cdf_term x n * (x\<^sup>2 * real (2 * n + 1) / (2 * real (n + 1) * real (2 * n + 3)))"
proof -
  have aux: "(p * x2) / (2 * t * (m * f) * e) = p / (t * f * c) * (x2 * c / (2 * m * e))"
    if "c \<noteq> 0" for p x2 t m f e c :: real
    using that by simp
  have "cdf_term x (Suc n) =
          (x ^ (2 * n + 1) * x\<^sup>2) / (2 * 2 ^ n * (real (n + 1) * fact n) * real (2 * n + 3))"
    by (simp add: cdf_term_def power2_eq_square ac_simps)
  also have "\<dots> = x ^ (2 * n + 1) / (2 ^ n * fact n * real (2 * n + 1)) *
                     (x\<^sup>2 * real (2 * n + 1) / (2 * real (n + 1) * real (2 * n + 3)))"
    by (rule aux) simp
  finally show ?thesis by (simp only: cdf_term_def)
qed

lemma cdf_term_abs_le: "\<bar>cdf_term x n\<bar> \<le> \<bar>x\<bar> * (inverse (fact n) * (x\<^sup>2 / 2) ^ n)"
proof -
  have pw: "\<bar>x\<bar> ^ (2 * n + 1) = \<bar>x\<bar> * (x\<^sup>2) ^ n"
    by (simp add: power_mult)
  have "\<bar>cdf_term x n\<bar> = (\<bar>x\<bar> * (x\<^sup>2) ^ n / (2 ^ n * fact n)) / real (2 * n + 1)"
    unfolding cdf_term_def abs_divide power_abs pw by simp
  also have "\<dots> \<le> (\<bar>x\<bar> * (x\<^sup>2) ^ n / (2 ^ n * fact n)) / 1"
    by (intro divide_left_mono) auto
  also have "\<dots> = \<bar>x\<bar> * (inverse (fact n) * (x\<^sup>2 / 2) ^ n)"
    by (simp add: power_divide field_simps)
  finally show ?thesis .
qed

lemma summable_cdf: "summable (\<lambda>n. (- 1) ^ n * cdf_term x n)"
proof (rule summable_comparison_test)
  show "\<exists>N. \<forall>n\<ge>N. norm ((- 1) ^ n * cdf_term x n) \<le> \<bar>x\<bar> * (inverse (fact n) * (x\<^sup>2 / 2) ^ n)"
    using cdf_term_abs_le by (auto simp: abs_mult power_abs)
  show "summable (\<lambda>n. \<bar>x\<bar> * (inverse (fact n) * (x\<^sup>2 / 2) ^ n))"
    by (intro summable_mult summable_exp)
qed

lemma cdf_series_minus: "cdf_series (- x) = - cdf_series x"
proof -
  have "cdf_series (- x) = (\<Sum>n. - ((- 1) ^ n * cdf_term x n))"
    by (simp add: cdf_series_def cdf_term_minus)
  also have "\<dots> = - (\<Sum>n. (- 1) ^ n * cdf_term x n)"
    by (rule suminf_minus[OF summable_cdf])
  finally show ?thesis by (simp add: cdf_series_def)
qed

lemma norm_cdf_minus: "norm_cdf (- x) = 1 - norm_cdf x"
  by (simp add: norm_cdf_def cdf_series_minus)

lemma norm_cdf_0: "norm_cdf 0 = 1 / 2"
  by (simp add: norm_cdf_def cdf_series_def cdf_term_def)

lemma cdf_term_decreasing:
  assumes "0 \<le> x" and "x\<^sup>2 \<le> 6"
  shows "cdf_term x (Suc n) \<le> cdf_term x n"
proof -
  have "x\<^sup>2 * real (2 * n + 1) \<le> 6 * real (2 * n + 1)"
    using assms(2) by (intro mult_right_mono) auto
  also have "\<dots> \<le> 2 * real (n + 1) * real (2 * n + 3)"
  proof -
    have "n \<le> n * (n * 2)" by (cases n) auto
    then have "real n \<le> real (n * (n * 2))"
      by (rule of_nat_mono)
    then show ?thesis by (simp add: algebra_simps)
  qed
  finally have "x\<^sup>2 * real (2 * n + 1) / (2 * real (n + 1) * real (2 * n + 3)) \<le> 1"
    by (simp add: divide_le_eq)
  then have "cdf_term x n * (x\<^sup>2 * real (2 * n + 1) / (2 * real (n + 1) * real (2 * n + 3))) \<le> cdf_term x n * 1"
    using cdf_term_nonneg[OF assms(1)] by (intro mult_left_mono)
  then show ?thesis by (simp only: cdf_term_Suc mult_1_right)
qed

lemma cdf_term_tendsto_0: "cdf_term x \<longlonglongrightarrow> 0"
proof -
  have "(\<lambda>n. (- 1) ^ n * cdf_term x n) \<longlonglongrightarrow> 0"
    by (rule summable_LIMSEQ_zero[OF summable_cdf])
  then have "(\<lambda>n. \<bar>(- 1) ^ n * cdf_term x n\<bar>) \<longlonglongrightarrow> 0"
    by (simp add: tendsto_rabs_zero_iff)
  then have "(\<lambda>n. \<bar>cdf_term x n\<bar>) \<longlonglongrightarrow> 0"
    by (simp add: abs_mult power_abs)
  then show ?thesis by (simp add: tendsto_rabs_zero_iff)
qed

lemma cdf_series_bounds:
  assumes "0 \<le> x" and "x\<^sup>2 \<le> 6"
  shows "(\<Sum>i<2*n. (- 1) ^ i * cdf_term x i) \<le> cdf_series x"
    and "cdf_series x \<le> (\<Sum>i<2*n+1. (- 1) ^ i * cdf_term x i)"
  unfolding cdf_series_def
  using summable_Leibniz'(2,4)[OF cdf_term_tendsto_0 cdf_term_nonneg[OF assms(1)] cdf_term_decreasing[OF assms]]
  by blast+

subsection \<open>The derivative is the normal density\<close>

lemma even_interleave:
  fixes f :: "nat \<Rightarrow> real"
  assumes "f sums s"
  shows "(\<lambda>n. if even n then f (n div 2) else 0) sums s"
  using sums_if[OF sums_zero assms] by simp

lemma cdf_coeff_sums: "(\<lambda>n. cdf_coeff n * x ^ Suc n) sums cdf_series x"
proof -
  have "(\<lambda>k. (- 1) ^ k * cdf_term x k) sums cdf_series x"
    unfolding cdf_series_def by (rule summable_sums[OF summable_cdf])
  then have "(\<lambda>n. if even n then (- 1) ^ (n div 2) * cdf_term x (n div 2) else 0) sums cdf_series x"
    by (rule even_interleave)
  moreover have "(if even n then (- 1) ^ (n div 2) * cdf_term x (n div 2) else 0) = cdf_coeff n * x ^ Suc n" for n
  proof (cases "even n")
    case True
    then obtain k where k: "n = 2 * k" by (auto elim: evenE)
    show ?thesis by (simp add: k cdf_coeff_def cdf_term_def)
  next
    case False
    then show ?thesis by (simp add: cdf_coeff_def)
  qed
  ultimately show ?thesis by simp
qed

lemma cdf_coeff_deriv_sums: "(\<lambda>n. cdf_coeff n * real (Suc n) * x ^ n) sums exp (- (x\<^sup>2 / 2))"
proof -
  have "(\<lambda>k. (- (x\<^sup>2 / 2)) ^ k /\<^sub>R fact k) sums exp (- (x\<^sup>2 / 2))"
    by (rule exp_converges)
  then have "(\<lambda>n. if even n then (- (x\<^sup>2 / 2)) ^ (n div 2) /\<^sub>R fact (n div 2) else 0) sums exp (- (x\<^sup>2 / 2))"
    by (rule even_interleave)
  moreover have "(if even n then (- (x\<^sup>2 / 2)) ^ (n div 2) /\<^sub>R fact (n div 2) else 0)
                   = cdf_coeff n * real (Suc n) * x ^ n" for n
  proof (cases "even n")
    case True
    then obtain k where k: "n = 2 * k" by (auto elim: evenE)
    have pw: "(- (x\<^sup>2 / 2)) ^ k = (- 1) ^ k * x ^ (2 * k) / 2 ^ k"
      by (simp add: power_minus[of "x\<^sup>2 / 2"] power_divide power_mult)
    have c: "cdf_coeff (2 * k) * real (Suc (2 * k)) = (- 1) ^ k / (2 ^ k * fact k)"
      by (simp add: cdf_coeff_def)
    have "cdf_coeff n * real (Suc n) * x ^ n = (- 1) ^ k / (2 ^ k * fact k) * x ^ (2 * k)"
      by (simp only: k c)
    also have "\<dots> = ((- 1) ^ k * x ^ (2 * k) / 2 ^ k) / fact k"
      by simp
    also have "\<dots> = (- (x\<^sup>2 / 2)) ^ k /\<^sub>R fact k"
      by (subst pw) (simp add: divide_inverse)
    finally have "cdf_coeff n * real (Suc n) * x ^ n = (- (x\<^sup>2 / 2)) ^ k /\<^sub>R fact k" .
    then show ?thesis by (simp add: k)
  next
    case False
    then show ?thesis by (simp add: cdf_coeff_def)
  qed
  ultimately show ?thesis by simp
qed

lemma cdf_series_deriv: "DERIV cdf_series x :> exp (- (x\<^sup>2 / 2))"
proof -
  have "DERIV (\<lambda>y. \<Sum>n. cdf_coeff n * y ^ Suc n) x :> (\<Sum>n. cdf_coeff n * real (Suc n) * x ^ n)"
  proof (rule DERIV_power_series')
    show "x \<in> {- (\<bar>x\<bar> + 1) <..< \<bar>x\<bar> + 1}" by auto
    show "0 < \<bar>x\<bar> + 1" by simp
    show "summable (\<lambda>n. cdf_coeff n * real (Suc n) * y ^ n)" for y
      using cdf_coeff_deriv_sums by (rule sums_summable)
  qed
  moreover have "(\<lambda>y. \<Sum>n. cdf_coeff n * y ^ Suc n) = cdf_series"
    using cdf_coeff_sums by (auto simp: sums_iff)
  moreover have "(\<Sum>n. cdf_coeff n * real (Suc n) * x ^ n) = exp (- (x\<^sup>2 / 2))"
    using cdf_coeff_deriv_sums by (simp add: sums_iff)
  ultimately show ?thesis by simp
qed

lemma norm_cdf_deriv: "DERIV norm_cdf x :> exp (- (x\<^sup>2 / 2)) / sqrt (2 * pi)"
proof -
  have "DERIV (\<lambda>x. cdf_series x / sqrt (2 * pi)) x :> exp (- (x\<^sup>2 / 2)) / sqrt (2 * pi)"
    by (rule DERIV_cdivide[OF cdf_series_deriv])
  then have "DERIV (\<lambda>x. 1 / 2 + cdf_series x / sqrt (2 * pi)) x
               :> 0 + exp (- (x\<^sup>2 / 2)) / sqrt (2 * pi)"
    by (intro DERIV_add DERIV_const)
  then show ?thesis
    by (simp add: norm_cdf_def [abs_def])
qed

subsection \<open>Numerical bounds\<close>

lemma arctan_bounds_series:
  assumes "0 < x" and "x \<le> 1"
  shows "(\<Sum>i<2*n. (- 1) ^ i * (1 / real (i * 2 + 1) * x ^ (i * 2 + 1))) \<le> arctan x"
    and "arctan x \<le> (\<Sum>i<2*n+1. (- 1) ^ i * (1 / real (i * 2 + 1) * x ^ (i * 2 + 1)))"
proof -
  have ax: "\<bar>x\<bar> \<le> 1" using assms by simp
  have "(\<Sum>i. (- 1) ^ i * (1 / real (i * 2 + 1) * x ^ (i * 2 + 1)))
          \<in> {\<Sum>i<2*n. (- 1) ^ i * (1 / real (i * 2 + 1) * x ^ (i * 2 + 1)) ..
             \<Sum>i<2*n+1. (- 1) ^ i * (1 / real (i * 2 + 1) * x ^ (i * 2 + 1))}"
    using summable_Leibniz(2)[OF zeroseq_arctan_series[OF ax] monoseq_arctan_series[OF ax]] assms(1)
    by simp
  then show "(\<Sum>i<2*n. (- 1) ^ i * (1 / real (i * 2 + 1) * x ^ (i * 2 + 1))) \<le> arctan x"
    and "arctan x \<le> (\<Sum>i<2*n+1. (- 1) ^ i * (1 / real (i * 2 + 1) * x ^ (i * 2 + 1)))"
    unfolding arctan_series[OF ax] by simp_all
qed

lemma pi_bounds: "3.14159 \<le> pi" "pi \<le> 3.14163"
proof -
  have l5: "(0.1973955::real) \<le> arctan (1/5)"
    using arctan_bounds_series(1)[of "1/5" 2]
    by (simp add: lessThan_nat_numeral lessThan_Suc power_divide)
  have u5: "arctan (1/5) \<le> (0.1973974::real)"
    using arctan_bounds_series(2)[of "1/5" 1]
    by (simp add: lessThan_nat_numeral lessThan_Suc power_divide)
  have l239: "(0.00418407::real) \<le> arctan (1/239)"
    using arctan_bounds_series(1)[of "1/239" 1]
    by (simp add: lessThan_nat_numeral lessThan_Suc power_divide)
  have u239: "arctan (1/239) \<le> (0.00418411::real)"
    using arctan_bounds_series(2)[of "1/239" 0]
    by (simp add: lessThan_nat_numeral lessThan_Suc power_divide)
  have m: "pi = 16 * arctan (1/5) - 4 * arctan (1/239)"
    using machin by simp
  show "3.14159 \<le> pi" using l5 u239 unfolding m by simp
  show "pi \<le> 3.14163" using u5 l239 unfolding m by simp
qed

lemma sqrt_2pi_bounds: "2.5066 \<le> sqrt (2 * pi)" "sqrt (2 * pi) \<le> 2.50665"
proof -
  have "(2.5066::real)\<^sup>2 \<le> 2 * pi" using pi_bounds(1) by (simp add: power2_eq_square)
  then show "2.5066 \<le> sqrt (2 * pi)" by (rule real_le_rsqrt)
  have "2 * pi \<le> (2.50665::real)\<^sup>2" using pi_bounds(2) by (simp add: power2_eq_square)
  then show "sqrt (2 * pi) \<le> 2.50665" by (intro real_le_lsqrt) auto
qed

lemma exp_lower: "(0.7845::real) \<le> exp (- 0.239)"
proof -
  have "(0.970125::real) \<le> exp (- 0.029875)"
    using exp_ge_add_one_self[of "- 0.029875"] by simp
  then have "(0.970125::real) ^ 8 \<le> exp (- 0.029875) ^ 8"
    by (intro power_mono) auto
  also have "exp (- 0.029875 :: real) ^ 8 = exp (of_nat 8 * (- 0.029875))"
    by (rule exp_of_nat_mult[symmetric])
  also have "of_nat 8 * (- 0.029875 :: real) = - 0.239" by simp
  finally show ?thesis by (simp add: power_divide)
qed

lemma sum_a14: "(1.22914::real) \<le> (\<Sum>i<2*7. (- 1) ^ i * cdf_term (117/50) i)"
  by (simp add: cdf_term_def lessThan_nat_numeral lessThan_Suc fact_numeral power_divide)

lemma sum_a15: "(\<Sum>i<2*7+1. (- 1) ^ i * cdf_term (117/50) i) \<le> (1.22915::real)"
  by (simp add: cdf_term_def lessThan_nat_numeral lessThan_Suc fact_numeral power_divide)

lemma sum_b14: "(1.2349::real) \<le> (\<Sum>i<2*7. (- 1) ^ i * cdf_term (61/25) i)"
  by (simp add: cdf_term_def lessThan_nat_numeral lessThan_Suc fact_numeral power_divide)

lemma norm_cdf_neg: "norm_cdf (- x) = 1 / 2 - cdf_series x / sqrt (2 * pi)"
  by (simp add: norm_cdf_def cdf_series_minus)

lemma norm_cdf_tail_234: "norm_cdf (- (117 / 50)) < 0.01" "0.00963 \<le> norm_cdf (- (117 / 50))"
proof -
  have sq: "(117 / 50 :: real)\<^sup>2 \<le> 6" by (simp add: power2_eq_square)
  have lo: "1.22914 \<le> cdf_series (117 / 50)"
    using cdf_series_bounds(1)[of "117 / 50" 7] sq sum_a14 by simp
  have hi: "cdf_series (117 / 50) \<le> 1.22915"
    using cdf_series_bounds(2)[of "117 / 50" 7] sq sum_a15 by simp
  have "(1.22914 :: real) / 2.50665 \<le> cdf_series (117 / 50) / sqrt (2 * pi)"
    using lo sqrt_2pi_bounds by (intro frac_le) auto
  then show "norm_cdf (- (117 / 50)) < 0.01"
    unfolding norm_cdf_neg by simp
  have "cdf_series (117 / 50) / sqrt (2 * pi) \<le> (1.22915 :: real) / 2.5066"
    using hi lo sqrt_2pi_bounds by (intro frac_le) auto
  then show "0.00963 \<le> norm_cdf (- (117 / 50))"
    unfolding norm_cdf_neg by simp
qed

lemma norm_cdf_tail_244: "norm_cdf (- (61 / 25)) \<le> 0.00736"
proof -
  have sq: "(61 / 25 :: real)\<^sup>2 \<le> 6" by (simp add: power2_eq_square)
  have lo: "1.2349 \<le> cdf_series (61 / 25)"
    using cdf_series_bounds(1)[of "61 / 25" 7] sq sum_b14 by simp
  have "(1.2349 :: real) / 2.50665 \<le> cdf_series (61 / 25) / sqrt (2 * pi)"
    using lo sqrt_2pi_bounds by (intro frac_le) auto
  then show ?thesis
    unfolding norm_cdf_neg by simp
qed

section \<open>Black-Scholes: closed form, put floor and parity\<close>

lemma black_scholes_valid:
  assumes "0 < S" and "0 < K" and "0 < T" and "0 < sigma"
  shows "black_scholes S K T r sigma option_type =
           Inr (if option_type = ''put'' \<and> norm_cdf (- bs_d2 S K T r sigma) < 0.01 then Some 0
                else if option_type = ''call'' then Some (bs_call S K T r sigma)
                else if option_type = ''put'' then Some (bs_put S K T r sigma)
                else None)"
proof -
  have pos: "0 < sigma * sqrt T" using assms by simp
  then have nz: "sigma * sqrt T \<noteq> 0" and nle: "\<not> sigma * sqrt T \<le> 0" by auto
  have K: "K \<noteq> 0" using assms by simp
  have guard: "\<not> (S \<le> 0 \<or> K \<le> 0 \<or> T \<le> 0 \<or> sigma \<le> 0)" using assms by auto
  show ?thesis
    unfolding black_scholes_def black_scholes_body_def py_div_def except_return_None_def
    using guard K nz nle
    by (simp add: Let_def bs_d1_def bs_d2_def bs_call_def bs_put_def)
qed

lemma bs_parity_closed_form:
  "bs_call S K T r sigma - bs_put S K T r sigma = S - K * exp (- (r * T))"
  by (simp add: bs_call_def bs_put_def norm_cdf_minus algebra_simps)

lemma bs_d_example:
  "bs_d1 100 100 1 0.239 0.1 = 61 / 25" "bs_d2 100 100 1 0.239 0.1 = 117 / 50"
  by (simp_all add: bs_d2_def bs_d1_def power2_eq_square)

lemma bs_put_example_pos: "0 < bs_put 100 100 1 0.239 0.1"
proof -
  have "(0.7845 :: real) * 0.00963 \<le> exp (- 0.239) * norm_cdf (- (117 / 50))"
    using exp_lower norm_cdf_tail_234(2) by (intro mult_mono) auto
  then have "0 < exp (- 0.239) * norm_cdf (- (117 / 50)) - norm_cdf (- (61 / 25))"
    using norm_cdf_tail_244 by simp
  then show ?thesis
    unfolding bs_put_def bs_d_example by simp
qed

lemma bs_d_example_atm:
  "bs_d1 100 100 1 0.5 1 = 1" "bs_d2 100 100 1 0.5 1 = 0"
  by (simp_all add: bs_d2_def bs_d1_def)

lemma floor_example: "norm_cdf (- bs_d2 100 100 1 0.239 0.1) < 0.01"
  unfolding bs_d_example by (rule norm_cdf_tail_234(1))

lemma no_floor_example_atm: "\<not> norm_cdf (- bs_d2 100 100 1 0.5 1) < 0.01"
  unfolding bs_d_example_atm by (simp add: norm_cdf_0)

text \<open>
  C1 (amended): for S, K, T, sigma > 0 and any r, with \<open>d1\<close> and \<open>d2\<close> as in the
  specification, \<open>black_scholes\<close> returns \<open>S \<Phi>(d1) - K exp (- r T) \<Phi>(d2)\<close> for a call; for a
  put it returns \<open>K exp (- r T) \<Phi>(- d2) - S \<Phi>(- d1)\<close> when \<open>\<Phi>(- d2) \<ge> 0.01\<close> and 0 when
  \<open>\<Phi>(- d2) < 0.01\<close>.
\<close>

theorem black_scholes_closed_form:
  assumes "0 < S" and "0 < K" and "0 < T" and "0 < sigma"
  shows "black_scholes S K T r sigma ''call'' = Inr (Some (bs_call S K T r sigma)) \<and>
         black_scholes S K T r sigma ''put'' =
           Inr (Some (if norm_cdf (- bs_d2 S K T r sigma) < 0.01 then 0
                      else bs_put S K T r sigma))"
  using black_scholes_valid[OF assms] by simp

theorem black_scholes_closed_form_witness:
  "black_scholes 100 100 1 0.5 1 ''call'' = Inr (Some (bs_call 100 100 1 0.5 1)) \<and>
   black_scholes 100 100 1 0.5 1 ''put'' = Inr (Some (bs_put 100 100 1 0.5 1))"
  using black_scholes_closed_form[of 100 100 1 1 "0.5"] no_floor_example_atm
  by simp

text \<open>
  The claim as stated fails for S = K = 100, T = 1, r = 0.239, sigma = 0.1: there
  \<open>d2 = 2.34\<close>, \<open>\<Phi>(- d2) < 0.01\<close>, the put is priced 0, and the closed form is positive.
\<close>

theorem black_scholes_put_counterexample:
  "black_scholes 100 100 1 0.239 0.1 ''put'' = Inr (Some 0) \<and>
   black_scholes 100 100 1 0.239 0.1 ''put'' \<noteq> Inr (Some (bs_put 100 100 1 0.239 0.1))"
proof -
  have "black_scholes 100 100 1 0.239 0.1 ''put'' = Inr (Some 0)"
    using black_scholes_valid[of 100 100 1 "0.1" "0.239" "''put''"] floor_example
    by simp
  then show ?thesis using bs_put_example_pos by simp
qed

text \<open>
  C6: for S, K, T, sigma > 0, a put with \<open>\<Phi>(- d2) < 0.01\<close> is priced exactly 0; a call is
  priced by its closed form whatever \<open>\<Phi>(- d2)\<close> is.
\<close>

theorem put_floor:
  assumes "0 < S" and "0 < K" and "0 < T" and "0 < sigma"
  shows "(norm_cdf (- bs_d2 S K T r sigma) < 0.01 \<longrightarrow>
            black_scholes S K T r sigma ''put'' = Inr (Some 0)) \<and>
         black_scholes S K T r sigma ''call'' = Inr (Some (bs_call S K T r sigma))"
  using black_scholes_valid[OF assms] by simp

theorem put_floor_witness:
  "norm_cdf (- bs_d2 100 100 1 0.239 0.1) < 0.01 \<and>
   black_scholes 100 100 1 0.239 0.1 ''put'' = Inr (Some 0) \<and>
   black_scholes 100 100 1 0.239 0.1 ''call'' = Inr (Some (bs_call 100 100 1 0.239 0.1))"
  using put_floor[of 100 100 1 "0.1" "0.239"] floor_example
  by simp

text \<open>
  C5 (amended): for S, K, T, sigma > 0 with \<open>\<Phi>(- d2) \<ge> 0.01\<close>, the call price minus the put
  price is \<open>S - K exp (- r T)\<close>.
\<close>

theorem put_call_parity:
  assumes "0 < S" and "0 < K" and "0 < T" and "0 < sigma"
    and "0.01 \<le> norm_cdf (- bs_d2 S K T r sigma)"
  shows "\<exists>c p. black_scholes S K T r sigma ''call'' = Inr (Some c) \<and>
               black_scholes S K T r sigma ''put'' = Inr (Some p) \<and>
               c - p = S - K * exp (- (r * T))"
  using black_scholes_valid[OF assms(1-4)] assms(5) bs_parity_closed_form by simp

theorem put_call_parity_witness:
  "\<exists>c p. black_scholes 100 100 1 0.5 1 ''call'' = Inr (Some c) \<and>
         black_scholes 100 100 1 0.5 1 ''put'' = Inr (Some p) \<and>
         c - p = 100 - 100 * exp (- (0.5 * 1))"
  using put_call_parity[of 100 100 1 1 "0.5"] no_floor_example_atm
  by simp

text \<open>
  Parity as stated fails at S = K = 100, T = 1, r = 0.239, sigma = 0.1, where the put is
  floored: the call price minus 0 exceeds \<open>S - K exp (- r T)\<close> by the closed-form put.
\<close>

theorem put_call_parity_counterexample:
  "black_scholes 100 100 1 0.239 0.1 ''call'' = Inr (Some (bs_call 100 100 1 0.239 0.1)) \<and>
   black_scholes 100 100 1 0.239 0.1 ''put'' = Inr (Some 0) \<and>
   bs_call 100 100 1 0.239 0.1 - 0 \<noteq> 100 - 100 * exp (- (0.239 * 1))"
proof -
  have c: "black_scholes 100 100 1 0.239 0.1 ''call'' = Inr (Some (bs_call 100 100 1 0.239 0.1))"
    using black_scholes_valid[of 100 100 1 "0.1" "0.239" "''call''"] by simp
  have p: "black_scholes 100 100 1 0.239 0.1 ''put'' = Inr (Some 0)"
    using black_scholes_valid[of 100 100 1 "0.1" "0.239" "''put''"] floor_example
    by simp
  have "bs_call 100 100 1 0.239 0.1 - bs_put 100 100 1 0.239 0.1 = 100 - 100 * exp (- (0.239 * 1))"
    by (rule bs_parity_closed_form)
  then have "bs_call 100 100 1 0.239 0.1 - 0 \<noteq> 100 - 100 * exp (- (0.239 * 1))"
    using bs_put_example_pos by linarith
  with c p show ?thesis by blast
qed

section \<open>Black-Scholes: failure on invalid input\<close>

text \<open>
  Over the reals the guards of \<open>black_scholes\<close> come before each division, so the body of the
  \<open>try\<close> block raises nothing and the handler is never entered; overflow, NaN and infinite
  arguments, where a float computation can raise, are not values of this model.
\<close>

lemma black_scholes_body_returns:
  "\<exists>v. black_scholes_body S K T r sigma option_type = Inr v"
  by (auto simp: black_scholes_body_def py_div_def Let_def)

text \<open>
  Whatever the body of the \<open>try\<close> block does, return or raise, the handler lets no
  exception through.
\<close>

lemma except_return_None_returns: "\<exists>v. except_return_None body = Inr v"
  by (cases body) (simp_all add: except_return_None_def)

lemma black_scholes_returns:
  "\<exists>v. black_scholes S K T r sigma option_type = Inr v"
  unfolding black_scholes_def by (rule except_return_None_returns)

text \<open>
  C7: \<open>black_scholes\<close> yields no price when one of S, K, T, sigma is not positive, and both
  pricers yield no price for an option type other than call and put.
\<close>

theorem invalid_input_no_price:
  "(S \<le> 0 \<or> K \<le> 0 \<or> T \<le> 0 \<or> sigma \<le> 0 \<longrightarrow> black_scholes S K T r sigma option_type = Inr None) \<and>
   (option_type \<noteq> ''call'' \<and> option_type \<noteq> ''put'' \<longrightarrow>
      black_scholes S K T r sigma option_type = Inr None \<and>
      heston_price quad S K T r kappa theta sigma rho v0 option_type = None)"
  by (auto simp: black_scholes_def except_return_None_def black_scholes_body_def py_div_def
        Let_def heston_price_def)

theorem invalid_input_no_price_witness:
  "black_scholes 0 100 1 0.045 0.5 ''call'' = Inr None \<and>
   black_scholes 100 (- 5) 1 0.045 0.5 ''put'' = Inr None \<and>
   black_scholes 100 100 1 0.045 0.5 ''straddle'' = Inr None \<and>
   heston_price (\<lambda>f a b. (b - a) * f ((a + b) / 2)) 100 100 1 0.045 2 0.04 0.5 (- 0.7) 0.04
     ''straddle'' = None"
  using
    invalid_input_no_price[where S=0 and K=100 and T=1 and sigma="0.5" and r="0.045"
      and option_type="''call''"]
    invalid_input_no_price[where S=100 and K="-5" and T=1 and sigma="0.5" and r="0.045"
      and option_type="''put''"]
    invalid_input_no_price[where S=100 and K=100 and T=1 and sigma="0.5" and r="0.045"
      and option_type="''straddle''" and quad="\<lambda>f a b. (b - a) * f ((a + b) / 2)"
      and kappa=2 and theta="0.04" and rho="-0.7" and ?v0.0="0.04"]
  by simp

section \<open>Heston characteristic function and price\<close>

text \<open>
  C2: branch 1 of \<open>heston_cf\<close> uses \<open>b = \<kappa> - \<rho>\<sigma>\<close> with weight 0.5, branch 2 uses \<open>b = \<kappa>\<close>
  with weight -0.5, and the value is \<open>exp (C + D v0 + i u ln S)\<close> for the specification's
  \<open>d\<close>, \<open>g\<close>, \<open>C\<close> and \<open>D\<close>.
\<close>

theorem heston_cf_formula:
  "heston_cf u S T r kappa theta sigma rho v0 1 =
     spec_phi u (kappa - rho * sigma) 0.5 S T r kappa theta sigma rho v0 \<and>
   heston_cf u S T r kappa theta sigma rho v0 2 =
     spec_phi u kappa (- 0.5) S T r kappa theta sigma rho v0"
  by (simp add: heston_cf_def spec_phi_def spec_C_def spec_D_def spec_g_def spec_d_def Let_def)

lemma heston_cf_branch_1:
  "heston_cf u S T r kappa theta sigma rho v0 1 =
     spec_phi u (kappa - rho * sigma) 0.5 S T r kappa theta sigma rho v0"
  by (simp add: heston_cf_def spec_phi_def spec_C_def spec_D_def spec_g_def spec_d_def Let_def)

lemma heston_cf_branch_2:
  "heston_cf u S T r kappa theta sigma rho v0 2 =
     spec_phi u kappa (- 0.5) S T r kappa theta sigma rho v0"
  by (simp add: heston_cf_def spec_phi_def spec_C_def spec_D_def spec_g_def spec_d_def Let_def)

text \<open>
  The integrand of the code, which divides by \<open>i u\<close> only when \<open>u \<noteq> 0\<close>, is the
  specification's integrand over the specification's characteristic function.
\<close>

lemma integrand_branch_1:
  "integrand u S K T r kappa theta sigma rho v0 1 =
     spec_integrand u (kappa - rho * sigma) 0.5 S K T r kappa theta sigma rho v0"
  unfolding integrand_def spec_integrand_def Let_def heston_cf_branch_1 by simp

lemma integrand_branch_2:
  "integrand u S K T r kappa theta sigma rho v0 2 =
     spec_integrand u kappa (- 0.5) S K T r kappa theta sigma rho v0"
  unfolding integrand_def spec_integrand_def Let_def heston_cf_branch_2 by simp

lemma heston_price_probabilities:
  "0.5 + (1 / pi) * quad (\<lambda>phi. integrand phi S K T r kappa theta sigma rho v0 1) 0 85 =
     spec_P1 quad S K T r kappa theta sigma rho v0"
  "0.5 + (1 / pi) * quad (\<lambda>phi. integrand phi S K T r kappa theta sigma rho v0 2) 0 85 =
     spec_P2 quad S K T r kappa theta sigma rho v0"
  unfolding spec_P1_def spec_P2_def spec_P_def integrand_branch_1 integrand_branch_2
  by (rule refl)+

text \<open>
  C3: \<open>heston_price\<close> returns \<open>max (S P\<^sub>1 - K exp (- r T) P\<^sub>2) 0\<close> for a call and
  \<open>max (K exp (- r T) (1 - P\<^sub>2) - S (1 - P\<^sub>1)) 0\<close> for a put, where \<open>P\<^sub>j\<close> is 0.5 plus
  \<open>1/\<pi>\<close> times the integral from 0 to 85 of the specification's integrand
  \<open>Re (exp (- i u ln K) phi (u) / (i u))\<close>, 0 at \<open>u = 0\<close>, over the specification's
  characteristic function of branch \<open>j\<close>; the price is never negative.
\<close>

theorem heston_price_formula:
  "heston_price quad S K T r kappa theta sigma rho v0 ''call'' =
     Some (max (S * spec_P1 quad S K T r kappa theta sigma rho v0
                - K * exp (- (r * T)) * spec_P2 quad S K T r kappa theta sigma rho v0) 0) \<and>
   heston_price quad S K T r kappa theta sigma rho v0 ''put'' =
     Some (max (K * exp (- (r * T)) * (1 - spec_P2 quad S K T r kappa theta sigma rho v0)
                - S * (1 - spec_P1 quad S K T r kappa theta sigma rho v0)) 0) \<and>
   0 \<le> the (heston_price quad S K T r kappa theta sigma rho v0 ''call'') \<and>
   0 \<le> the (heston_price quad S K T r kappa theta sigma rho v0 ''put'')"
  unfolding heston_price_def Let_def heston_price_probabilities by simp

section \<open>Calibration objective\<close>

lemma heston_price_Some:
  "option_type \<in> {''call'', ''put''} \<Longrightarrow>
   \<exists>p. heston_price quad S K T r kappa theta sigma rho v0 option_type = Some p"
  by (auto simp: heston_price_def Let_def)

lemma calibration_loop_sum:
  assumes "\<forall>row \<in> set rows. real_market_price row > 0 \<longrightarrow>
             py_strip (py_lower (row_option_type row)) \<in> {''call'', ''put''}"
  shows "calibration_loop quad params r_fixed rows acc =
           Inr (acc + (\<Sum>row \<leftarrow> filter (\<lambda>row. real_market_price row > 0) rows.
                         relative_sq_error quad params r_fixed row))"
  using assms
proof (induction rows arbitrary: acc)
  case Nil
  then show ?case by simp
next
  case (Cons row rows)
  obtain kappa theta rho v0 where params: "params = (kappa, theta, rho, v0)"
    by (cases params) auto
  have IH: "\<And>a. calibration_loop quad params r_fixed rows a =
           Inr (a + (\<Sum>row \<leftarrow> filter (\<lambda>row. real_market_price row > 0) rows.
                         relative_sq_error quad params r_fixed row))"
    using Cons by simp
  show ?case
  proof (cases "real_market_price row > 0")
    case True
    then have "py_strip (py_lower (row_option_type row)) \<in> {''call'', ''put''}"
      using Cons.prems by simp
    then obtain p where p:
      "heston_price quad (spot_price row) (strike_price row) (row_T row) r_fixed kappa theta
         (implied_volatility row) rho v0 (py_strip (py_lower (row_option_type row))) = Some p"
      using heston_price_Some by blast
    show ?thesis
      using True p IH by (simp add: params relative_sq_error_def Let_def add.assoc)
  next
    case False
    then show ?thesis
      using IH by (simp add: params Let_def)
  qed
qed

lemma normalise_Call: "py_strip (py_lower '' Call '') = ''call''"
  by code_simp

lemma normalise_PUT: "py_strip (py_lower ''PUT'') = ''put''"
  by code_simp

lemma normalise_no_break_space:
  "py_strip (py_lower (''Call'' @ [char_of (160 :: nat), char_of (133 :: nat)])) = ''call''"
  by code_simp

text \<open>
  C4 (amended): when the option type of every quote with a strictly positive market price is
  call or put once it is lower-cased and stripped, the objective is the sum, over the quotes
  with a strictly positive market price, of
  \<open>((heston_price - market_price) / market_price)\<^sup>2\<close>; a quote with a non-positive market
  price adds nothing, whatever its option type.
\<close>

theorem calibration_objective_sum:
  assumes "\<forall>row \<in> set data. real_market_price row > 0 \<longrightarrow>
             py_strip (py_lower (row_option_type row)) \<in> {''call'', ''put''}"
  shows "calibration_objective quad params data r_fixed =
           Inr (\<Sum>row \<leftarrow> filter (\<lambda>row. real_market_price row > 0) data.
                  relative_sq_error quad params r_fixed row)"
  using calibration_loop_sum[OF assms] by (simp add: calibration_objective_def)

theorem calibration_objective_sum_witness:
  "calibration_objective (\<lambda>f a b. (b - a) * f ((a + b) / 2)) (3, 0.05, - 0.6, 0.1)
     [\<lparr>spot_price = 100, strike_price = 100, row_T = 0.5, row_option_type = '' Call '',
        real_market_price = 7, implied_volatility = 0.5\<rparr>,
      \<lparr>spot_price = 100, strike_price = 120, row_T = 0.5, row_option_type = ''straddle'',
        real_market_price = 0, implied_volatility = 0.6\<rparr>,
      \<lparr>spot_price = 100, strike_price = 90, row_T = 0.25, row_option_type = ''PUT'',
        real_market_price = 2, implied_volatility = 0.4\<rparr>] 0.045 =
   Inr (relative_sq_error (\<lambda>f a b. (b - a) * f ((a + b) / 2)) (3, 0.05, - 0.6, 0.1) 0.045
          \<lparr>spot_price = 100, strike_price = 100, row_T = 0.5, row_option_type = '' Call '',
            real_market_price = 7, implied_volatility = 0.5\<rparr>
        + relative_sq_error (\<lambda>f a b. (b - a) * f ((a + b) / 2)) (3, 0.05, - 0.6, 0.1) 0.045
          \<lparr>spot_price = 100, strike_price = 90, row_T = 0.25, row_option_type = ''PUT'',
            real_market_price = 2, implied_volatility = 0.4\<rparr>)"
  using calibration_objective_sum[where quad="\<lambda>f a b. (b - a) * f ((a + b) / 2)"
      and params="(3, 0.05, - 0.6, 0.1)" and r_fixed="0.045" and data=
     "[\<lparr>spot_price = 100, strike_price = 100, row_T = 0.5, row_option_type = '' Call '',
        real_market_price = 7, implied_volatility = 0.5\<rparr>,
      \<lparr>spot_price = 100, strike_price = 120, row_T = 0.5, row_option_type = ''straddle'',
        real_market_price = 0, implied_volatility = 0.6\<rparr>,
      \<lparr>spot_price = 100, strike_price = 90, row_T = 0.25, row_option_type = ''PUT'',
        real_market_price = 2, implied_volatility = 0.4\<rparr>]"]
  by (simp add: normalise_Call normalise_PUT)

lemma normalise_straddle: "py_strip (py_lower ''straddle'') = ''straddle''"
  by code_simp

text \<open>
  The claim as stated fails for a quote with a positive market price and an option type
  that is neither call nor put: \<open>heston_price\<close> returns None, the subtraction raises
  \<open>TypeError\<close>, and the objective has no value.
\<close>

theorem calibration_objective_counterexample:
  "calibration_objective (\<lambda>f a b. (b - a) * f ((a + b) / 2)) (3, 0.05, - 0.6, 0.1)
     [\<lparr>spot_price = 100, strike_price = 120, row_T = 0.5, row_option_type = ''straddle'',
        real_market_price = 7, implied_volatility = 0.6\<rparr>] 0.045 = Inl TypeError \<and>
   calibration_objective (\<lambda>f a b. (b - a) * f ((a + b) / 2)) (3, 0.05, - 0.6, 0.1)
     [\<lparr>spot_price = 100, strike_price = 120, row_T = 0.5, row_option_type = ''straddle'',
        real_market_price = 7, implied_volatility = 0.6\<rparr>] 0.045 \<noteq>
   Inr (\<Sum>row \<leftarrow> filter (\<lambda>row. real_market_price row > 0)
          [\<lparr>spot_price = 100, strike_price = 120, row_T = 0.5, row_option_type = ''straddle'',
             real_market_price = 7, implied_volatility = 0.6\<rparr>].
          relative_sq_error (\<lambda>f a b. (b - a) * f ((a + b) / 2)) (3, 0.05, - 0.6, 0.1) 0.045 row)"
  by (simp add: calibration_objective_def heston_price_def normalise_straddle Let_def)

section \<open>Pricing pass and post-processing\<close>

lemma pricing_pass_None:
  "(row, hp) \<in> set (pricing_pass quad r_fixed kappa theta rho v0 df) \<Longrightarrow>
   real_market_price row \<le> 0 \<Longrightarrow> hp = None"
  by (auto simp: pricing_pass_def)

lemma deep_otm_None:
  "(row, hp) \<in> set (deep_otm_correction df) \<Longrightarrow>
   \<exists>hp'. (row, hp') \<in> set df \<and> (hp' = None \<longrightarrow> hp = None)"
  by (auto simp: deep_otm_correction_def split: if_splits)

lemma remove_outliers_subset: "set (remove_outliers df) \<subseteq> set df"
  by (auto simp: remove_outliers_def Let_def)

lemma dropna_set: "set (dropna df) = {pr \<in> set df. snd pr \<noteq> None}"
  by (auto simp: dropna_def)

text \<open>
  C10: a quote whose market price is not strictly positive gets no Heston price in the
  pricing pass, the final \<open>dropna\<close> keeps no quote without a price, and the quote is absent
  from the frame the pipeline returns.
\<close>

theorem nonpositive_market_price_dropped:
  assumes "row \<in> set df" and "real_market_price row \<le> 0"
  shows "(row, None) \<in> set (pricing_pass quad r_fixed kappa theta rho v0 df) \<and>
         (\<forall>hp. (row, hp) \<in> set (pricing_pass quad r_fixed kappa theta rho v0 df) \<longrightarrow> hp = None) \<and>
         (\<forall>frame. (row, None) \<notin> set (dropna frame)) \<and>
         (\<forall>hp. (row, hp) \<notin> set (heston_pipeline quad r_fixed kappa theta rho v0 df))"
proof -
  have 1: "(row, None) \<in> set (pricing_pass quad r_fixed kappa theta rho v0 df)"
    using assms by (force simp: pricing_pass_def)
  have 2: "\<forall>hp. (row, hp) \<in> set (pricing_pass quad r_fixed kappa theta rho v0 df) \<longrightarrow> hp = None"
    using assms(2) pricing_pass_None by blast
  have 3: "\<forall>frame. (row, None) \<notin> set (dropna frame)"
    by (simp add: dropna_set)
  have 4: "(row, hp) \<notin> set (heston_pipeline quad r_fixed kappa theta rho v0 df)" for hp
  proof
    assume a: "(row, hp) \<in> set (heston_pipeline quad r_fixed kappa theta rho v0 df)"
    then have hp: "hp \<noteq> None"
      by (simp add: heston_pipeline_def dropna_set)
    from a have
      "(row, hp) \<in> set (deep_otm_correction (pricing_pass quad r_fixed kappa theta rho v0 df))"
      using remove_outliers_subset by (auto simp: heston_pipeline_def dropna_set)
    then obtain hp' where "(row, hp') \<in> set (pricing_pass quad r_fixed kappa theta rho v0 df)"
      and "hp' = None \<longrightarrow> hp = None"
      using deep_otm_None by blast
    with 2 hp show False by blast
  qed
  from 1 2 3 4 show ?thesis by blast
qed

theorem nonpositive_market_price_dropped_witness:
  "\<lparr>spot_price = 100, strike_price = 120, row_T = 0.5, row_option_type = ''call'',
      real_market_price = 0, implied_volatility = 0.6\<rparr>
     \<in> set [\<lparr>spot_price = 100, strike_price = 100, row_T = 0.5, row_option_type = ''call'',
               real_market_price = 7, implied_volatility = 0.5\<rparr>,
             \<lparr>spot_price = 100, strike_price = 120, row_T = 0.5, row_option_type = ''call'',
               real_market_price = 0, implied_volatility = 0.6\<rparr>] \<and>
   (\<lparr>spot_price = 100, strike_price = 120, row_T = 0.5, row_option_type = ''call'',
      real_market_price = 0, implied_volatility = 0.6\<rparr>, None)
     \<in> set (pricing_pass (\<lambda>f a b. (b - a) * f ((a + b) / 2)) 0.045 2 0.04 (- 0.7) 0.04
         [\<lparr>spot_price = 100, strike_price = 100, row_T = 0.5, row_option_type = ''call'',
            real_market_price = 7, implied_volatility = 0.5\<rparr>,
          \<lparr>spot_price = 100, strike_price = 120, row_T = 0.5, row_option_type = ''call'',
            real_market_price = 0, implied_volatility = 0.6\<rparr>]) \<and>
   (\<forall>hp. (\<lparr>spot_price = 100, strike_price = 120, row_T = 0.5, row_option_type = ''call'',
      real_market_price = 0, implied_volatility = 0.6\<rparr>, hp)
     \<notin> set (heston_pipeline (\<lambda>f a b. (b - a) * f ((a + b) / 2)) 0.045 2 0.04 (- 0.7) 0.04
         [\<lparr>spot_price = 100, strike_price = 100, row_T = 0.5, row_option_type = ''call'',
            real_market_price = 7, implied_volatility = 0.5\<rparr>,
          \<lparr>spot_price = 100, strike_price = 120, row_T = 0.5, row_option_type = ''call'',
            real_market_price = 0, implied_volatility = 0.6\<rparr>]))"
  using nonpositive_market_price_dropped[where quad="\<lambda>f a b. (b - a) * f ((a + b) / 2)"
      and r_fixed="0.045" and kappa=2 and theta="0.04" and rho="- 0.7" and ?v0.0="0.04"
      and row="\<lparr>spot_price = 100, strike_price = 120, row_T = 0.5, row_option_type = ''call'',
               real_market_price = 0, implied_volatility = 0.6\<rparr>"
      and df="[\<lparr>spot_price = 100, strike_price = 100, row_T = 0.5, row_option_type = ''call'',
               real_market_price = 7, implied_volatility = 0.5\<rparr>,
             \<lparr>spot_price = 100, strike_price = 120, row_T = 0.5, row_option_type = ''call'',
               real_market_price = 0, implied_volatility = 0.6\<rparr>]"]
  by simp

subsection \<open>Outlier rejection\<close>

lemma interp_bounds:
  fixes vs :: "real list"
  assumes srt: "sorted vs" and ne: "vs \<noteq> []" and q0: "0 \<le> q" and q1: "q \<le> 1"
  defines "h \<equiv> q * real (length vs - 1)"
  defines "lo \<equiv> nat \<lfloor>h\<rfloor>" and "hi \<equiv> nat \<lceil>h\<rceil>"
  shows "lo \<le> hi" and "hi < length vs"
    and "vs ! lo \<le> vs ! lo + (vs ! hi - vs ! lo) * (h - real lo)"
    and "vs ! lo + (vs ! hi - vs ! lo) * (h - real lo) \<le> vs ! hi"
proof -
  have h0: "0 \<le> h" using q0 by (simp add: h_def)
  have h1: "h \<le> real (length vs - 1)"
    unfolding h_def using q0 q1 by (intro mult_left_le_one_le) auto
  show lohi: "lo \<le> hi"
    unfolding lo_def hi_def by (rule nat_mono) (simp add: floor_le_ceiling)
  have "\<lceil>h\<rceil> \<le> int (length vs - 1)"
    using h1 by (simp add: ceiling_le_iff)
  then have "hi \<le> length vs - 1" unfolding hi_def by linarith
  then show hil: "hi < length vs" using ne by (cases vs) auto
  have lo_real: "real lo = of_int \<lfloor>h\<rfloor>"
    using h0 by (simp add: lo_def)
  have t0: "0 \<le> h - real lo" unfolding lo_real by linarith
  have t1: "h - real lo \<le> 1" unfolding lo_real by linarith
  have mono: "vs ! lo \<le> vs ! hi"
    using srt lohi hil by (simp add: sorted_nth_mono)
  show "vs ! lo \<le> vs ! lo + (vs ! hi - vs ! lo) * (h - real lo)"
    using mono t0 by simp
  have "(vs ! hi - vs ! lo) * (h - real lo) \<le> (vs ! hi - vs ! lo) * 1"
    using mono t1 by (intro mult_left_mono) auto
  then show "vs ! lo + (vs ! hi - vs ! lo) * (h - real lo) \<le> vs ! hi"
    by simp
qed

lemma quantile_all_Some:
  fixes q :: real
  assumes "\<forall>pr \<in> set df. error_heston pr \<noteq> None" and "df \<noteq> []"
  defines "vs \<equiv> sort (map (the \<circ> error_heston) df)"
  defines "h \<equiv> q * real (length vs - 1)"
  shows "quantile q (map error_heston df) =
           Some (vs ! nat \<lfloor>h\<rfloor> + (vs ! nat \<lceil>h\<rceil> - vs ! nat \<lfloor>h\<rfloor>) * (h - real (nat \<lfloor>h\<rfloor>)))"
proof -
  have "filter (\<lambda>v. v \<noteq> None) (map error_heston df) = map error_heston df"
    using assms(1) by (simp add: filter_id_conv)
  moreover have "sort (map (the \<circ> error_heston) df) \<noteq> []"
    using assms(2) by (metis length_map length_sort length_0_conv)
  ultimately show ?thesis
    unfolding quantile_def Let_def vs_def h_def using assms(2) by (simp add: comp_def)
qed

lemma percentile_filter_drops_one:
  assumes "df \<noteq> []" and q0: "0 \<le> q" and q1: "q \<le> 1"
  shows "length (filter (\<lambda>pr. below (error_heston pr) (quantile q (map error_heston df))) df)
           < length df"
proof (cases "\<forall>pr \<in> set df. error_heston pr \<noteq> None")
  case False
  then obtain pr where "pr \<in> set df" and "error_heston pr = None" by blast
  then show ?thesis
    by (intro length_filter_less[of pr]) (auto simp: below_def)
next
  case True
  define es where "es = map (the \<circ> error_heston) df"
  define vs where "vs = sort es"
  define h :: real where "h = q * real (length vs - 1)"
  define v where "v = vs ! nat \<lfloor>h\<rfloor> + (vs ! nat \<lceil>h\<rceil> - vs ! nat \<lfloor>h\<rfloor>) * (h - real (nat \<lfloor>h\<rfloor>))"
  have q: "quantile q (map error_heston df) = Some v"
    using quantile_all_Some[OF True assms(1)] by (simp add: v_def vs_def es_def h_def)
  have len: "length vs = length df" by (simp add: vs_def es_def)
  have ne: "vs \<noteq> []" using assms(1) len by auto
  have srt: "sorted vs" by (simp add: vs_def)
  have ib: "nat \<lceil>h\<rceil> < length vs" "v \<le> vs ! nat \<lceil>h\<rceil>"
    using interp_bounds(2,4)[OF srt ne q0 q1] unfolding v_def h_def by blast+
  then have "vs ! nat \<lceil>h\<rceil> \<in> set es"
    by (metis nth_mem set_sort vs_def)
  then obtain pr where pr: "pr \<in> set df" "the (error_heston pr) = vs ! nat \<lceil>h\<rceil>"
    by (auto simp: es_def)
  obtain e where e: "error_heston pr = Some e" using True pr(1) by auto
  have "\<not> below (error_heston pr) (Some v)"
    using ib(2) pr(2) e by (simp add: below_def)
  then show ?thesis
    unfolding q using pr(1) by (intro length_filter_less[of pr]) auto
qed

lemma remove_outliers_drops_one:
  assumes "df \<noteq> []"
  shows "length (remove_outliers df) < length df"
  unfolding remove_outliers_def Let_def
  by (rule percentile_filter_drops_one[OF assms]) simp_all


lemma length_filter_sorted_prefix:
  fixes vs :: "real list"
  assumes "k \<le> length vs" and "\<forall>i<k. P (vs ! i)"
  shows "k \<le> length (filter P vs)"
proof -
  have "filter P (take k vs) = take k vs"
    using assms by (auto simp: filter_id_conv in_set_conv_nth)
  moreover have "filter P vs = filter P (take k vs) @ filter P (drop k vs)"
    by (metis append_take_drop_id filter_append)
  ultimately show ?thesis using assms(1) by simp
qed

lemma percentile_filter_lower:
  fixes q :: real
  assumes some: "\<forall>pr \<in> set df. error_heston pr \<noteq> None"
    and dist: "distinct (map (the \<circ> error_heston) df)"
    and ne: "df \<noteq> []" and q0: "0 \<le> q" and q1: "q \<le> 1"
  shows "nat \<lceil>q * real (length df - 1)\<rceil>
           \<le> length (filter (\<lambda>pr. below (error_heston pr) (quantile q (map error_heston df))) df)"
proof -
  define es where "es = map (the \<circ> error_heston) df"
  define vs where "vs = sort es"
  define h :: real where "h = q * real (length vs - 1)"
  define lo where "lo = nat \<lfloor>h\<rfloor>"
  define hi where "hi = nat \<lceil>h\<rceil>"
  define v where "v = vs ! lo + (vs ! hi - vs ! lo) * (h - real lo)"
  have qv: "quantile q (map error_heston df) = Some v"
    using quantile_all_Some[OF some ne] by (simp add: v_def vs_def es_def h_def lo_def hi_def)
  have len: "length vs = length df" by (simp add: vs_def es_def)
  have vne: "vs \<noteq> []" using ne len by auto
  have srt: "sorted vs" by (simp add: vs_def)
  have strict: "sorted_wrt (<) vs"
    using dist by (simp add: strict_sorted_iff vs_def es_def)
  have lohi: "lo \<le> hi" and hil: "hi < length vs"
    using interp_bounds(1,2)[OF srt vne q0 q1] unfolding lo_def hi_def h_def by blast+
  have h0: "0 \<le> h" using q0 by (simp add: h_def)
  have lo_real: "real lo = of_int \<lfloor>h\<rfloor>" using h0 by (simp add: lo_def)
  have below_v: "vs ! i < v" if "i < hi" for i
  proof (cases "h = of_int \<lfloor>h\<rfloor>")
    case True
    then have "\<lceil>h\<rceil> = \<lfloor>h\<rfloor>" by (metis ceiling_of_int)
    then have "hi = lo" by (simp add: hi_def lo_def)
    moreover have "h - real lo = 0" using True lo_real by simp
    ultimately have "v = vs ! hi" by (simp add: v_def)
    then show ?thesis
      using sorted_wrt_nth_less[OF strict that hil] by simp
  next
    case False
    then have fl: "of_int \<lfloor>h\<rfloor> < h" by (metis of_int_floor_le order_neq_le_trans)
    have "\<lceil>h\<rceil> = \<lfloor>h\<rfloor> + 1" using False by (metis ceiling_altdef)
    then have hi_eq: "hi = lo + 1" using h0 by (simp add: hi_def lo_def nat_add_distrib)
    have t: "0 < h - real lo" using fl lo_real by simp
    have "vs ! lo < vs ! hi"
      using sorted_wrt_nth_less[OF strict _ hil, of lo] hi_eq by simp
    then have "0 < (vs ! hi - vs ! lo) * (h - real lo)" using t by simp
    then have gt: "vs ! lo < v" by (simp add: v_def)
    have "i \<le> lo" using that hi_eq by simp
    then have "vs ! i \<le> vs ! lo"
      using srt hil hi_eq by (intro sorted_nth_mono) auto
    with gt show ?thesis by simp
  qed
  have "hi \<le> length (filter (\<lambda>e. e < v) vs)"
    using hil below_v by (intro length_filter_sorted_prefix) auto
  also have "filter (\<lambda>e. e < v) vs = sort (filter (\<lambda>e. e < v) es)"
    by (simp add: vs_def filter_sort)
  also have "length \<dots> = length (filter (\<lambda>e. e < v) es)" by simp
  also have "\<dots> = length (filter (\<lambda>pr. the (error_heston pr) < v) df)"
    by (simp add: es_def filter_map comp_def)
  also have "filter (\<lambda>pr. the (error_heston pr) < v) df =
             filter (\<lambda>pr. below (error_heston pr) (Some v)) df"
    using some by (intro filter_cong) (auto simp: below_def)
  finally show ?thesis
    unfolding qv hi_def h_def len .
qed

lemma remove_outliers_lower:
  assumes "\<forall>pr \<in> set df. error_heston pr \<noteq> None"
    and "distinct (map (the \<circ> error_heston) df)"
  shows "\<lceil>0.975 * (real (length df) - 1)\<rceil> \<le> int (length (remove_outliers df))"
proof (cases "df = []")
  case True
  then show ?thesis by (simp add: remove_outliers_def quantile_def)
next
  case False
  then have eq: "real (length df) - 1 = real (length df - 1)"
    by (cases df) auto
  have "nat \<lceil>0.975 * real (length df - 1)\<rceil> \<le> length (remove_outliers df)"
    unfolding remove_outliers_def Let_def
    by (rule percentile_filter_lower[OF assms False]) simp_all
  then have "\<lceil>0.975 * real (length df - 1)\<rceil> \<le> int (length (remove_outliers df))"
    using nat_le_iff by blast
  then show ?thesis unfolding eq .
qed

text \<open>
  C8 (amended): the outlier step keeps exactly the quotes whose absolute error is strictly
  below the 97.5th percentile of the errors; a quote whose error equals the percentile and
  a quote without a price are dropped too.  A non-empty frame always loses at least one
  quote, and a frame of N quotes with pairwise distinct errors keeps at least
  \<open>\<lceil>0.975 (N - 1)\<rceil>\<close> of them.
\<close>

theorem remove_outliers_strictly_below:
  "(pr \<in> set (remove_outliers df) \<longleftrightarrow>
      pr \<in> set df \<and> below (error_heston pr) (quantile 0.975 (map error_heston df))) \<and>
   (df \<noteq> [] \<longrightarrow> length (remove_outliers df) < length df) \<and>
   ((\<forall>pr \<in> set df. error_heston pr \<noteq> None) \<and> distinct (map (the \<circ> error_heston) df) \<longrightarrow>
      \<lceil>0.975 * (real (length df) - 1)\<rceil> \<le> int (length (remove_outliers df)))"
proof -
  have "pr \<in> set (remove_outliers df) \<longleftrightarrow>
      pr \<in> set df \<and> below (error_heston pr) (quantile 0.975 (map error_heston df))"
    by (simp add: remove_outliers_def Let_def)
  then show ?thesis
    using remove_outliers_drops_one remove_outliers_lower by blast
qed

theorem remove_outliers_strictly_below_witness:
  "length (remove_outliers
     [(\<lparr>spot_price = 100, strike_price = 100, row_T = 0.5, row_option_type = ''call'',
         real_market_price = 7, implied_volatility = 0.5\<rparr>, Some 8),
      (\<lparr>spot_price = 100, strike_price = 90, row_T = 0.25, row_option_type = ''put'',
         real_market_price = 2, implied_volatility = 0.4\<rparr>, Some 5)])
     < length
     [(\<lparr>spot_price = 100, strike_price = 100, row_T = 0.5, row_option_type = ''call'',
         real_market_price = 7, implied_volatility = 0.5\<rparr>, Some (8::real)),
      (\<lparr>spot_price = 100, strike_price = 90, row_T = 0.25, row_option_type = ''put'',
         real_market_price = 2, implied_volatility = 0.4\<rparr>, Some 5)] \<and>
   \<lceil>0.975 * (real (length
     [(\<lparr>spot_price = 100, strike_price = 100, row_T = 0.5, row_option_type = ''call'',
         real_market_price = 7, implied_volatility = 0.5\<rparr>, Some (8::real)),
      (\<lparr>spot_price = 100, strike_price = 90, row_T = 0.25, row_option_type = ''put'',
         real_market_price = 2, implied_volatility = 0.4\<rparr>, Some 5)]) - 1)\<rceil>
     \<le> int (length (remove_outliers
     [(\<lparr>spot_price = 100, strike_price = 100, row_T = 0.5, row_option_type = ''call'',
         real_market_price = 7, implied_volatility = 0.5\<rparr>, Some 8),
      (\<lparr>spot_price = 100, strike_price = 90, row_T = 0.25, row_option_type = ''put'',
         real_market_price = 2, implied_volatility = 0.4\<rparr>, Some 5)]))"
  using remove_outliers_strictly_below[where df=
     "[(\<lparr>spot_price = 100, strike_price = 100, row_T = 0.5, row_option_type = ''call'',
         real_market_price = 7, implied_volatility = 0.5\<rparr>, Some 8),
      (\<lparr>spot_price = 100, strike_price = 90, row_T = 0.25, row_option_type = ''put'',
         real_market_price = 2, implied_volatility = 0.4\<rparr>, Some 5)]"]
  by (simp add: error_heston_def)

text \<open>
  The claim as stated fails for a frame of one quote: its error is the percentile, it is
  dropped, and the frame returned is empty although \<open>\<lceil>0.975 \<cdot> 1\<rceil> = 1\<close>.  It also fails for
  two quotes with errors 1 and 3: the percentile is 2.95, one quote is kept, and
  \<open>\<lceil>0.975 \<cdot> 2\<rceil> = 2\<close>.
\<close>

theorem remove_outliers_counterexample:
  "remove_outliers
     [(\<lparr>spot_price = 100, strike_price = 100, row_T = 0.5, row_option_type = ''call'',
         real_market_price = 7, implied_volatility = 0.5\<rparr>, Some 8)] = [] \<and>
   \<not> \<lceil>0.975 * real (length
     [(\<lparr>spot_price = 100, strike_price = 100, row_T = 0.5, row_option_type = ''call'',
         real_market_price = 7, implied_volatility = 0.5\<rparr>, Some (8::real))])\<rceil>
     \<le> int (length (remove_outliers
     [(\<lparr>spot_price = 100, strike_price = 100, row_T = 0.5, row_option_type = ''call'',
         real_market_price = 7, implied_volatility = 0.5\<rparr>, Some 8)])) \<and>
   \<not> \<lceil>0.975 * real (length
     [(\<lparr>spot_price = 100, strike_price = 100, row_T = 0.5, row_option_type = ''call'',
         real_market_price = 7, implied_volatility = 0.5\<rparr>, Some (8::real)),
      (\<lparr>spot_price = 100, strike_price = 90, row_T = 0.25, row_option_type = ''put'',
         real_market_price = 2, implied_volatility = 0.4\<rparr>, Some 5)])\<rceil>
     \<le> int (length (remove_outliers
     [(\<lparr>spot_price = 100, strike_price = 100, row_T = 0.5, row_option_type = ''call'',
         real_market_price = 7, implied_volatility = 0.5\<rparr>, Some 8),
      (\<lparr>spot_price = 100, strike_price = 90, row_T = 0.25, row_option_type = ''put'',
         real_market_price = 2, implied_volatility = 0.4\<rparr>, Some 5)]))"
  by (simp add: remove_outliers_def quantile_def error_heston_def below_def Let_def)

end
